theory Spec2Isabelle
  imports Complex_Main "HOL-Library.Word" "HOL-Library.Sublist" "HOL-Library.Multiset"
    "HOL-Library.List_Lexorder"
begin

section \<open>ECMAScript strings\<close>

text \<open>
  A JavaScript string is a sequence of 16-bit code units.  \<open>utf16\<close> writes a string
  literal of the source whose characters are all ASCII as its code units.
\<close>

type_synonym js_string = "16 word list"

definition utf16 :: "string \<Rightarrow> js_string" where
  "utf16 s = map of_char s"

text \<open>
  The code units matched by \<^verbatim>\<open>\s\<close> in a regular expression and removed by
  \<^verbatim>\<open>String.prototype.trim\<close>: WhiteSpace and LineTerminator of ECMA-262.
\<close>

definition isWhiteSpace :: "16 word \<Rightarrow> bool" where
  "isWhiteSpace c \<longleftrightarrow>
     c \<in> {0x09, 0x0A, 0x0B, 0x0C, 0x0D, 0x20, 0xA0, 0x1680, 0x2028, 0x2029, 0x202F,
          0x205F, 0x3000, 0xFEFF}
     \<or> (0x2000 \<le> c \<and> c \<le> 0x200A)"

definition trim :: "js_string \<Rightarrow> js_string" where
  "trim s = rev (dropWhile isWhiteSpace (rev (dropWhile isWhiteSpace s)))"

text \<open>\<^verbatim>\<open>s.includes(t)\<close>: \<open>t\<close> occurs in \<open>s\<close> at some position.\<close>

fun includes_js :: "js_string \<Rightarrow> js_string \<Rightarrow> bool" where
  "includes_js [] t = (t = [])"
| "includes_js (c # cs) t = (prefix t (c # cs) \<or> includes_js cs t)"

text \<open>\<^verbatim>\<open>s.split(' ')\<close>: the pieces between single separators; never the empty array.\<close>

fun split :: "js_string \<Rightarrow> 16 word \<Rightarrow> js_string list" where
  "split [] sep = [[]]"
| "split (c # cs) sep =
     (if c = sep then [] # split cs sep
      else (case split cs sep of
              [] \<Rightarrow> [[c]]
            | w # ws \<Rightarrow> (c # w) # ws))"

text \<open>\<^verbatim>\<open>s.replace(/\s+/g, ' ')\<close>: every maximal run of white space becomes one space.\<close>

function replace_spaces :: "js_string \<Rightarrow> js_string" where
  "replace_spaces [] = []"
| "replace_spaces (c # cs) =
     (if isWhiteSpace c then 0x20 # replace_spaces (dropWhile isWhiteSpace cs)
      else c # replace_spaces cs)"
  by pat_completeness auto
termination
  by (relation "measure length") (auto simp: length_dropWhile_le less_Suc_eq_le)

text \<open>\<^verbatim>\<open>s.replace(/[.,!?;:()]/g, '')\<close>\<close>

definition replace_punctuation :: "js_string \<Rightarrow> js_string" where
  "replace_punctuation s = filter (\<lambda>c. c \<notin> set (utf16 ''.,!?;:()'')) s"

text \<open>\<^verbatim>\<open>s.replace(/[\u0300-\u036f]/g, '')\<close>\<close>

definition replace_combining_marks :: "js_string \<Rightarrow> js_string" where
  "replace_combining_marks s = filter (\<lambda>c. \<not> (0x0300 \<le> c \<and> c \<le> 0x036F)) s"

text \<open>
  Three builtins are driven by the Unicode character database of the engine:
  \<^verbatim>\<open>toLowerCase()\<close>, \<^verbatim>\<open>normalize('NFD')\<close> and \<^verbatim>\<open>normalize('NFC')\<close>.  The
  program is modelled over any such triple, so that what is proved of a handler holds
  whatever the engine's tables are.
\<close>

record unicode =
  toLowerCase :: "js_string \<Rightarrow> js_string"
  normalizeNFD :: "js_string \<Rightarrow> js_string"
  normalizeNFC :: "js_string \<Rightarrow> js_string"

text \<open>
  For running the program on concrete inputs, \<open>latin1\<close> gives the three builtins on
  strings whose code units are all at most U+00FF (Basic Latin and Latin-1 Supplement),
  where they agree with ECMA-262: the upper-case letters are U+0041..U+005A and
  U+00C0..U+00DE without the multiplication sign U+00D7, each 32 below its lower-case
  form; the letters of \<open>latin1_decomposition\<close> (and their lower-case forms) decompose
  canonically into a base letter and one combining mark; and every such string without
  combining marks is already in NFC.
\<close>

definition latin1_toLowerCase :: "js_string \<Rightarrow> js_string" where
  "latin1_toLowerCase s =
     map (\<lambda>c. if (0x41 \<le> c \<and> c \<le> 0x5A) \<or> (0xC0 \<le> c \<and> c \<le> 0xDE \<and> c \<noteq> 0xD7)
              then c + 0x20 else c) s"

definition latin1_decomposition :: "(16 word \<times> 16 word \<times> 16 word) list" where
  "latin1_decomposition =
     [(0xC0, 0x41, 0x0300), (0xC1, 0x41, 0x0301), (0xC2, 0x41, 0x0302), (0xC3, 0x41, 0x0303),
      (0xC4, 0x41, 0x0308), (0xC5, 0x41, 0x030A), (0xC7, 0x43, 0x0327),
      (0xC8, 0x45, 0x0300), (0xC9, 0x45, 0x0301), (0xCA, 0x45, 0x0302), (0xCB, 0x45, 0x0308),
      (0xCC, 0x49, 0x0300), (0xCD, 0x49, 0x0301), (0xCE, 0x49, 0x0302), (0xCF, 0x49, 0x0308),
      (0xD1, 0x4E, 0x0303),
      (0xD2, 0x4F, 0x0300), (0xD3, 0x4F, 0x0301), (0xD4, 0x4F, 0x0302), (0xD5, 0x4F, 0x0303),
      (0xD6, 0x4F, 0x0308),
      (0xD9, 0x55, 0x0300), (0xDA, 0x55, 0x0301), (0xDB, 0x55, 0x0302), (0xDC, 0x55, 0x0308),
      (0xDD, 0x59, 0x0301)]"

definition latin1_decompose :: "16 word \<Rightarrow> js_string" where
  "latin1_decompose c =
     (case map_of latin1_decomposition c of
        Some (b, m) \<Rightarrow> [b, m]
      | None \<Rightarrow>
          (if c = 0xFF then [0x79, 0x0308]
           else (case map_of latin1_decomposition (c - 0x20) of
                   Some (b, m) \<Rightarrow> if 0xE0 \<le> c \<and> c \<le> 0xFD then [b + 0x20, m] else [c]
                 | None \<Rightarrow> [c])))"

definition latin1 :: unicode where
  "latin1 = \<lparr> toLowerCase = latin1_toLowerCase,
              normalizeNFD = (\<lambda>s. concat (map latin1_decompose s)),
              normalizeNFC = (\<lambda>s. s) \<rparr>"

section \<open>Data model (types/index.ts)\<close>

text \<open>
  The two revisions of the \<^verbatim>\<open>Vocabulary\<close> interface agree on \<^verbatim>\<open>id\<close>, \<^verbatim>\<open>word\<close> and
  \<^verbatim>\<open>meaning\<close>; \<^verbatim>\<open>phonetic\<close> and \<^verbatim>\<open>topic\<close> are declared by the later one only, and
  the vocabulary handler builds objects without them.  They are optional properties
  here: \<open>None\<close> is the \<^verbatim>\<open>undefined\<close> that reading an absent property gives.
\<close>

record Vocabulary =
  v_id :: int
  word :: js_string
  meaning :: js_string
  phonetic :: "js_string option"
  topic :: "js_string option"

datatype quiz_mode =
  Phonetic_to_meaning | Meaning_to_phonetic | Mixed
  | Phonetic_to_meaning_text | Meaning_to_phonetic_text | Mixed_text

datatype input_type = Multiple_choice | Text_input

record QuizQuestion =
  q_id :: int
  q_question :: "js_string option"
  q_correctAnswer :: "js_string option"
  q_options :: "js_string option list option"
  q_type :: quiz_mode
  q_word :: js_string
  q_inputType :: input_type

section \<open>The store file\<close>

text \<open>
  The file \<^verbatim>\<open>data/vocabulary.json\<close> is absent, or holds a text.  A text is kept as what
  \<^verbatim>\<open>JSON.parse\<close> makes of it: the array of records it denotes, or a syntax error.  A
  text that parses to something else than an array of records is outside the type
  \<^verbatim>\<open>Vocabulary[]\<close> that \<^verbatim>\<open>readVocabulary\<close> declares, and outside the model.
  \<open>writable\<close> says whether the file system accepts a write: \<^verbatim>\<open>writeVocabulary\<close>
  throws when it does not, and each handler then answers 500.
\<close>

datatype file_text = Json_array "Vocabulary list" | Malformed

datatype js_error = ENOENT | SyntaxError | Failed_to_save

record disk =
  contents :: "file_text option"
  writable :: bool

definition fs_readFileSync :: "disk \<Rightarrow> js_error + file_text" where
  "fs_readFileSync d = (case contents d of None \<Rightarrow> Inl ENOENT | Some t \<Rightarrow> Inr t)"

definition JSON_parse :: "file_text \<Rightarrow> js_error + Vocabulary list" where
  "JSON_parse t = (case t of Malformed \<Rightarrow> Inl SyntaxError | Json_array vs \<Rightarrow> Inr vs)"

definition readVocabulary :: "disk \<Rightarrow> Vocabulary list" where
  "readVocabulary d =
     (case fs_readFileSync d of
        Inl e \<Rightarrow> []
      | Inr fileContents \<Rightarrow>
          (case JSON_parse fileContents of
             Inl e \<Rightarrow> []
           | Inr vocabulary \<Rightarrow> vocabulary))"

definition writeVocabulary :: "Vocabulary list \<Rightarrow> disk \<Rightarrow> js_error + disk" where
  "writeVocabulary vocabulary d =
     (if writable d then Inr (d\<lparr>contents := Some (Json_array vocabulary)\<rparr>)
      else Inl Failed_to_save)"

section \<open>Requests and responses\<close>

text \<open>A value of \<^verbatim>\<open>req.query\<close>: absent, one string, or an array of strings.\<close>

datatype query_value = Absent | Single js_string | Multi "js_string list"

datatype 'a body = Error js_string | Ok 'a

record 'a response =
  status :: nat
  body :: "'a body"

section \<open>Math.random\<close>

text \<open>
  \<^verbatim>\<open>Math.random()\<close> returns a number that is at least 0 and less than 1.  The
  generator is the sequence of the numbers it will return; the numbers are real numbers
  of that interval, and \<^verbatim>\<open>Math.floor\<close> is only applied to products that are not
  negative.
\<close>

typedef unit_interval = "{r :: real. 0 \<le> r \<and> r < 1}"
  by (rule exI [of _ 0]) simp

setup_lifting type_definition_unit_interval

lift_definition draw_zero :: unit_interval is 0
  by simp

lift_definition draw_half :: unit_interval is "1 / 2"
  by simp

type_synonym rng = "nat \<Rightarrow> unit_interval"

definition Math_random :: "rng \<Rightarrow> real \<times> rng" where
  "Math_random g = (Rep_unit_interval (g 0), (\<lambda>n. g (Suc n)))"

definition Math_floor :: "real \<Rightarrow> nat" where
  "Math_floor x = nat \<lfloor>x\<rfloor>"

section \<open>pages/api/quiz.ts\<close>

text \<open>
  The file holds two revisions of the route; the model is of the later one, with topics
  and text input.

  \<^verbatim>\<open>shuffleArray\<close>: the loop runs \<open>i\<close> from the last index down to 1 and swaps the
  entries at \<open>i\<close> and at \<open>j = Math.floor(Math.random() * (i + 1))\<close>.
\<close>

fun shuffle_loop :: "nat \<Rightarrow> 'a list \<Rightarrow> rng \<Rightarrow> 'a list \<times> rng" where
  "shuffle_loop 0 shuffled g = (shuffled, g)"
| "shuffle_loop (Suc n) shuffled g =
     (let i = Suc n;
          (r, g') = Math_random g;
          j = Math_floor (r * real (i + 1))
      in shuffle_loop n (shuffled[i := shuffled ! j, j := shuffled ! i]) g')"

definition shuffleArray :: "'a list \<Rightarrow> rng \<Rightarrow> 'a list \<times> rng" where
  "shuffleArray array g = shuffle_loop (length array - 1) array g"

definition normalizeVietnamese :: "unicode \<Rightarrow> js_string \<Rightarrow> js_string" where
  "normalizeVietnamese U text =
     normalizeNFC U
       (replace_combining_marks
         (normalizeNFD U
           (replace_punctuation
             (replace_spaces
               (trim
                 (toLowerCase U text))))))"

definition isAnswerCorrect :: "unicode \<Rightarrow> js_string \<Rightarrow> js_string \<Rightarrow> bool \<Rightarrow> bool" where
  "isAnswerCorrect U userAnswer correctAnswer isVietnamese =
     (if userAnswer = [] \<or> correctAnswer = [] then False
      else if isVietnamese then
        (let normalizedUser = normalizeVietnamese U userAnswer;
             normalizedCorrect = normalizeVietnamese U correctAnswer
         in if normalizedUser = normalizedCorrect then True
            else if includes_js normalizedUser normalizedCorrect
                    \<or> includes_js normalizedCorrect normalizedUser then True
            else
              (let userWords = split normalizedUser 0x20;
                   correctWords = split normalizedCorrect 0x20
               in if list_all (\<lambda>word. list_ex (\<lambda>userWord. includes_js userWord word
                                                          \<or> includes_js word userWord) userWords)
                       correctWords
                  then True
                  else False))
      else normalizeVietnamese U userAnswer = normalizeVietnamese U correctAnswer)"

text \<open>
  \<^verbatim>\<open>generateQuestion(vocabulary, mode, topic?)\<close>.  \<open>None\<close> is the \<^verbatim>\<open>null\<close> result.  The
  calls of \<^verbatim>\<open>Math.random\<close> are those of the source, in its order: the record, the
  question type of the two mixed modes, the shuffle of the pool, the shuffle of the
  options.
\<close>

definition generateQuestion ::
  "Vocabulary list \<Rightarrow> quiz_mode \<Rightarrow> js_string option \<Rightarrow> rng \<Rightarrow> QuizQuestion option" where
  "generateQuestion vocabulary mode topic_arg g =
     (let filteredVocabulary =
            (case topic_arg of
               Some t \<Rightarrow>
                 if t \<noteq> [] \<and> t \<noteq> utf16 ''all''
                 then filter (\<lambda>v. topic v = Some t) vocabulary
                 else vocabulary
             | None \<Rightarrow> vocabulary)
      in if length filteredVocabulary = 0 then None
         else if length vocabulary < 4 then None
         else
           (let (r, g1) = Math_random g;
                correctItem = filteredVocabulary ! Math_floor (r * real (length filteredVocabulary));
                (questionType, inputType, g2) =
                  (if mode = Mixed then
                     (let (r', g') = Math_random g1
                      in (if r' < 0.5 then Phonetic_to_meaning else Meaning_to_phonetic,
                          Multiple_choice, g'))
                   else if mode = Mixed_text then
                     (let (r', g') = Math_random g1
                      in (if r' < 0.5 then Phonetic_to_meaning_text else Meaning_to_phonetic_text,
                          Text_input, g'))
                   else if mode = Phonetic_to_meaning_text \<or> mode = Meaning_to_phonetic_text then
                     (mode, Text_input, g1)
                   else (mode, Multiple_choice, g1));
                (question, correctAnswer) =
                  (if questionType = Phonetic_to_meaning \<or> questionType = Phonetic_to_meaning_text
                   then (phonetic correctItem, Some (meaning correctItem))
                   else (Some (meaning correctItem), phonetic correctItem));
                options =
                  (if inputType = Multiple_choice then
                     (let optionPool =
                            (if questionType = Phonetic_to_meaning
                             then filter (\<lambda>m. m \<noteq> correctAnswer)
                                    (map (\<lambda>v. Some (meaning v)) vocabulary)
                             else filter (\<lambda>p. p \<noteq> correctAnswer)
                                    (map (\<lambda>v. phonetic v) vocabulary));
                          (shuffledPool, g3) = shuffleArray optionPool g2;
                          incorrectOptions = take 3 shuffledPool
                      in Some (fst (shuffleArray (correctAnswer # incorrectOptions) g3)))
                   else None)
            in Some \<lparr> q_id = v_id correctItem,
                      q_question = question,
                      q_correctAnswer = correctAnswer,
                      q_options = options,
                      q_type = questionType,
                      q_word = word correctItem,
                      q_inputType = inputType \<rparr>))"

text \<open>
  The handler, one function for each HTTP method it serves.  A GET request carries the
  query values \<^verbatim>\<open>mode\<close> and \<^verbatim>\<open>topic\<close>.  Truthiness of a query value and its text in
  a template literal are those of JavaScript: an absent value and the empty string are
  falsy, an array is truthy and prints its entries joined by commas.  The properties of
  the body of a POST request are absent or strings.
\<close>

definition truthy :: "query_value \<Rightarrow> bool" where
  "truthy q = (case q of Absent \<Rightarrow> False | Single s \<Rightarrow> s \<noteq> [] | Multi ss \<Rightarrow> True)"

fun join :: "js_string list \<Rightarrow> js_string \<Rightarrow> js_string" where
  "join [] sep = []"
| "join [s] sep = s"
| "join (s # ss) sep = s @ sep @ join ss sep"

definition template_text :: "query_value \<Rightarrow> js_string" where
  "template_text q =
     (case q of Absent \<Rightarrow> utf16 ''undefined'' | Single s \<Rightarrow> s | Multi ss \<Rightarrow> join ss (utf16 '',''))"

definition validModes :: "(js_string \<times> quiz_mode) list" where
  "validModes =
     [(utf16 ''phonetic-to-meaning'', Phonetic_to_meaning),
      (utf16 ''meaning-to-phonetic'', Meaning_to_phonetic),
      (utf16 ''mixed'', Mixed),
      (utf16 ''phonetic-to-meaning-text'', Phonetic_to_meaning_text),
      (utf16 ''meaning-to-phonetic-text'', Meaning_to_phonetic_text),
      (utf16 ''mixed-text'', Mixed_text)]"

definition quiz_GET :: "disk \<Rightarrow> query_value \<Rightarrow> query_value \<Rightarrow> rng \<Rightarrow> QuizQuestion response" where
  "quiz_GET d mode_q topic_q g =
     (let vocabulary = readVocabulary d;
          mode = (case mode_q of Absent \<Rightarrow> Single (utf16 ''mixed'') | _ \<Rightarrow> mode_q)
      in if length vocabulary = 0 then
           \<lparr> status = 400, body = Error (utf16 ''No vocabulary available for quiz'') \<rparr>
         else
           (let filteredVocabulary =
                  (case topic_q of
                     Single t \<Rightarrow>
                       if t \<noteq> [] \<and> t \<noteq> utf16 ''all''
                       then filter (\<lambda>v. topic v = Some t) vocabulary
                       else vocabulary
                   | _ \<Rightarrow> vocabulary)
            in if length filteredVocabulary = 0 then
                 \<lparr> status = 400,
                   body = Error (utf16 ''No vocabulary items found''
                                 @ (if truthy topic_q
                                    then utf16 '' in topic '' @ [0x22] @ template_text topic_q @ [0x22]
                                    else [])) \<rparr>
               else if length vocabulary < 4 then
                 \<lparr> status = 400,
                   body = Error (utf16 ''At least 4 vocabulary items are required for quiz mode'') \<rparr>
               else
                 (let quizMode =
                        (case mode of
                           Single m \<Rightarrow> (case map_of validModes m of Some q \<Rightarrow> q | None \<Rightarrow> Mixed)
                         | _ \<Rightarrow> Mixed)
                  in case generateQuestion vocabulary quizMode
                            (case topic_q of Single t \<Rightarrow> Some t | _ \<Rightarrow> None) g of
                       None \<Rightarrow> \<lparr> status = 500, body = Error (utf16 ''Failed to generate quiz question'') \<rparr>
                     | Some q \<Rightarrow> \<lparr> status = 200, body = Ok q \<rparr>)))"

record answer_check =
  r_isCorrect :: bool
  r_userAnswer :: js_string
  r_correctAnswer :: js_string
  r_isVietnamese :: bool

definition quiz_POST ::
  "unicode \<Rightarrow> js_string option \<Rightarrow> js_string option \<Rightarrow> js_string option \<Rightarrow> answer_check response" where
  "quiz_POST U userAnswer correctAnswer questionType =
     (case (userAnswer, correctAnswer, questionType) of
        (Some u, Some c, Some qt) \<Rightarrow>
          if u = [] \<or> c = [] \<or> qt = [] then
            \<lparr> status = 400, body = Error (utf16 ''Missing required fields'') \<rparr>
          else
            (let isVietnamese = (qt = utf16 ''phonetic-to-meaning-text''
                                 \<or> qt = utf16 ''meaning-to-phonetic-text'')
             in \<lparr> status = 200,
                  body = Ok \<lparr> r_isCorrect = isAnswerCorrect U u c isVietnamese,
                              r_userAnswer = u,
                              r_correctAnswer = c,
                              r_isVietnamese = isVietnamese \<rparr> \<rparr>)
      | _ \<Rightarrow> \<lparr> status = 400, body = Error (utf16 ''Missing required fields'') \<rparr>)"

section \<open>pages/api/vocabulary.ts\<close>

text \<open>
  The JSON body of a request.  Each property is absent or present; a present text
  property is a string and a present \<^verbatim>\<open>id\<close> is an integer, for which
  \<^verbatim>\<open>parseInt(id)\<close> is the integer itself.  The handler reads \<^verbatim>\<open>id\<close>, \<^verbatim>\<open>word\<close>
  and \<^verbatim>\<open>meaning\<close> and no other property.  The \<^verbatim>\<open>id\<close> of the DELETE request is a
  query value, a string, and goes through \<^verbatim>\<open>parseInt\<close>.

  Numbers are the integers they denote.  That is the program on ids of magnitude below
  2^53 and on stores of fewer records than the engine accepts as arguments of one call:
  beyond, the doubles of the program round (\<^verbatim>\<open>Math.max(...ids) + 1\<close> at 2^53 is 2^53,
  \<^verbatim>\<open>parseInt\<close> of a longer digit string is the nearest double, and \<^verbatim>\<open>parseInt\<close> of a
  number of 22 digits or more reads its exponent form), and spreading a very long array
  into \<^verbatim>\<open>Math.max\<close> throws.  The claims below do not depend on inputs beyond these
  bounds.
\<close>

record vocabulary_body =
  b_id :: "int option"
  b_word :: "js_string option"
  b_meaning :: "js_string option"
  b_phonetic :: "js_string option"
  b_topic :: "js_string option"

definition getNextId :: "Vocabulary list \<Rightarrow> int" where
  "getNextId vocabulary =
     (if length vocabulary = 0 then 1 else Max (set (map v_id vocabulary)) + 1)"

fun findIndex :: "('a \<Rightarrow> bool) \<Rightarrow> 'a list \<Rightarrow> nat option" where
  "findIndex P [] = None"
| "findIndex P (x # xs) = (if P x then Some 0 else map_option Suc (findIndex P xs))"

text \<open>
  \<^verbatim>\<open>parseInt(string)\<close> without a radix: leading white space is skipped, a sign is
  read, \<^verbatim>\<open>0x\<close> or \<^verbatim>\<open>0X\<close> selects radix 16, and the longest run of digits of the
  radix is the value.  \<open>None\<close> is \<^verbatim>\<open>NaN\<close>.
\<close>

definition digit_value :: "nat \<Rightarrow> 16 word \<Rightarrow> nat option" where
  "digit_value R c =
     (let v = (if 0x30 \<le> c \<and> c \<le> 0x39 then Some (unat c - 48)
               else if 0x61 \<le> c \<and> c \<le> 0x7A then Some (unat c - 87)
               else if 0x41 \<le> c \<and> c \<le> 0x5A then Some (unat c - 55)
               else None)
      in case v of Some n \<Rightarrow> if n < R then Some n else None | None \<Rightarrow> None)"

definition parseInt :: "js_string \<Rightarrow> int option" where
  "parseInt string =
     (let S = dropWhile isWhiteSpace string;
          (sign, S1) = (case S of
                          [] \<Rightarrow> (1, S)
                        | c # cs \<Rightarrow> if c = 0x2D then (- 1, cs)
                                    else if c = 0x2B then (1, cs) else (1, S));
          (R, S2) = (case S1 of
                       a # b # cs \<Rightarrow> if a = 0x30 \<and> (b = 0x78 \<or> b = 0x58) then (16, cs)
                                     else (10, S1)
                     | _ \<Rightarrow> (10, S1));
          Z = takeWhile (\<lambda>c. digit_value R c \<noteq> None) S2
      in if Z = [] then None
         else Some (sign * int (foldl (\<lambda>n c. n * R + the (digit_value R c)) 0 Z)))"

definition vocabulary_GET :: "unicode \<Rightarrow> disk \<Rightarrow> query_value \<Rightarrow> Vocabulary list response" where
  "vocabulary_GET U d search =
     (let vocabulary = readVocabulary d
      in case search of
           Single s \<Rightarrow>
             if s \<noteq> [] then
               (let searchTerm = toLowerCase U s;
                    filtered = filter (\<lambda>v. includes_js (toLowerCase U (word v)) searchTerm
                                          \<or> includes_js (toLowerCase U (meaning v)) searchTerm)
                                 vocabulary
                in \<lparr> status = 200, body = Ok filtered \<rparr>)
             else \<lparr> status = 200, body = Ok vocabulary \<rparr>
         | _ \<Rightarrow> \<lparr> status = 200, body = Ok vocabulary \<rparr>)"

definition vocabulary_POST ::
  "unicode \<Rightarrow> disk \<Rightarrow> vocabulary_body \<Rightarrow> Vocabulary response \<times> disk" where
  "vocabulary_POST U d b =
     (case (b_word b, b_meaning b) of
        (Some word_in, Some meaning_in) \<Rightarrow>
          if word_in = [] \<or> meaning_in = [] then
            (\<lparr> status = 400, body = Error (utf16 ''Word and meaning are required'') \<rparr>, d)
          else
            (let vocabulary = readVocabulary d;
                 existingWord = find (\<lambda>v. toLowerCase U (word v) = toLowerCase U word_in) vocabulary
             in case existingWord of
                  Some v \<Rightarrow> (\<lparr> status = 400, body = Error (utf16 ''Word already exists'') \<rparr>, d)
                | None \<Rightarrow>
                    (let newVocabulary = \<lparr> v_id = getNextId vocabulary,
                                            word = trim word_in,
                                            meaning = trim meaning_in,
                                            phonetic = None,
                                            topic = None \<rparr>
                     in case writeVocabulary (vocabulary @ [newVocabulary]) d of
                          Inl e \<Rightarrow> (\<lparr> status = 500,
                                      body = Error (utf16 ''Failed to add vocabulary'') \<rparr>, d)
                        | Inr d' \<Rightarrow> (\<lparr> status = 201, body = Ok newVocabulary \<rparr>, d')))
      | _ \<Rightarrow> (\<lparr> status = 400, body = Error (utf16 ''Word and meaning are required'') \<rparr>, d))"

definition vocabulary_PUT ::
  "unicode \<Rightarrow> disk \<Rightarrow> vocabulary_body \<Rightarrow> Vocabulary response \<times> disk" where
  "vocabulary_PUT U d b =
     (case (b_id b, b_word b, b_meaning b) of
        (Some id_in, Some word_in, Some meaning_in) \<Rightarrow>
          if id_in = 0 \<or> word_in = [] \<or> meaning_in = [] then
            (\<lparr> status = 400, body = Error (utf16 ''ID, word and meaning are required'') \<rparr>, d)
          else
            (let vocabulary = readVocabulary d
             in case findIndex (\<lambda>v. v_id v = id_in) vocabulary of
                  None \<Rightarrow> (\<lparr> status = 404, body = Error (utf16 ''Vocabulary not found'') \<rparr>, d)
                | Some index \<Rightarrow>
                    (case find (\<lambda>v. toLowerCase U (word v) = toLowerCase U word_in
                                      \<and> v_id v \<noteq> id_in) vocabulary of
                       Some v \<Rightarrow>
                         (\<lparr> status = 400, body = Error (utf16 ''Word already exists'') \<rparr>, d)
                     | None \<Rightarrow>
                         (let updated = \<lparr> v_id = id_in,
                                          word = trim word_in,
                                          meaning = trim meaning_in,
                                          phonetic = None,
                                          topic = None \<rparr>
                          in case writeVocabulary (vocabulary[index := updated]) d of
                               Inl e \<Rightarrow> (\<lparr> status = 500,
                                           body = Error (utf16 ''Failed to update vocabulary'') \<rparr>, d)
                             | Inr d' \<Rightarrow> (\<lparr> status = 200, body = Ok updated \<rparr>, d'))))
      | _ \<Rightarrow> (\<lparr> status = 400, body = Error (utf16 ''ID, word and meaning are required'') \<rparr>, d))"

definition vocabulary_DELETE :: "disk \<Rightarrow> query_value \<Rightarrow> js_string response \<times> disk" where
  "vocabulary_DELETE d id_q =
     (case id_q of
        Single s \<Rightarrow>
          if s = [] then
            (\<lparr> status = 400, body = Error (utf16 ''Valid ID is required'') \<rparr>, d)
          else
            (let vocabulary = readVocabulary d;
                 filteredVocabulary = filter (\<lambda>v. Some (v_id v) \<noteq> parseInt s) vocabulary
             in if length filteredVocabulary = length vocabulary then
                  (\<lparr> status = 404, body = Error (utf16 ''Vocabulary not found'') \<rparr>, d)
                else
                  (case writeVocabulary filteredVocabulary d of
                     Inl e \<Rightarrow> (\<lparr> status = 500,
                                 body = Error (utf16 ''Failed to delete vocabulary'') \<rparr>, d)
                   | Inr d' \<Rightarrow> (\<lparr> status = 200,
                                  body = Ok (utf16 ''Vocabulary deleted successfully'') \<rparr>, d')))
      | _ \<Rightarrow> (\<lparr> status = 400, body = Error (utf16 ''Valid ID is required'') \<rparr>, d))"

section \<open>pages/api/topics.ts\<close>

text \<open>
  \<^verbatim>\<open>Array.from(new Set(...)).sort()\<close> keeps one copy of each value and orders strings
  by their code units, with \<^verbatim>\<open>undefined\<close> last.
\<close>

record topic_stat =
  ts_name :: "js_string option"
  ts_count :: nat

definition topics_GET :: "disk \<Rightarrow> topic_stat list response" where
  "topics_GET d =
     (let vocabulary = readVocabulary d;
          seen = remdups (map topic vocabulary);
          topics = map Some (sort (concat (map (\<lambda>t. case t of None \<Rightarrow> [] | Some n \<Rightarrow> [n]) seen)))
                   @ filter (\<lambda>t. t = None) seen;
          topicStats = map (\<lambda>t. \<lparr> ts_name = t,
                                   ts_count = length (filter (\<lambda>v. topic v = t) vocabulary) \<rparr>)
                         topics
      in \<lparr> status = 200, body = Ok topicStats \<rparr>)"

definition topics_POST :: "disk \<Rightarrow> js_string option \<Rightarrow> (js_string \<times> js_string) response" where
  "topics_POST d name =
     (case name of
        None \<Rightarrow> \<lparr> status = 400, body = Error (utf16 ''Topic name is required'') \<rparr>
      | Some n \<Rightarrow>
          if n = [] \<or> trim n = [] then
            \<lparr> status = 400, body = Error (utf16 ''Topic name is required'') \<rparr>
          else
            (let topicName = trim n;
                 vocabulary = readVocabulary d;
                 existingTopic = find (\<lambda>v. topic v = Some topicName) vocabulary
             in case existingTopic of
                  Some v \<Rightarrow> \<lparr> status = 400, body = Error (utf16 ''Topic already exists'') \<rparr>
                | None \<Rightarrow> \<lparr> status = 200,
                            body = Ok (utf16 ''Topic created successfully'', topicName) \<rparr>))"

text \<open>The body of a successful rename or delete: the message and the count.\<close>

definition topics_PUT ::
  "disk \<Rightarrow> js_string option \<Rightarrow> js_string option \<Rightarrow> (js_string \<times> nat) response \<times> disk" where
  "topics_PUT d oldName newName =
     (case (oldName, newName) of
        (Some old, Some new) \<Rightarrow>
          if old = [] \<or> new = [] then
            (\<lparr> status = 400, body = Error (utf16 ''Old name and new name are required'') \<rparr>, d)
          else
            (let oldTopicName = trim old;
                 newTopicName = trim new
             in if oldTopicName = newTopicName then
                  (\<lparr> status = 400,
                     body = Error (utf16 ''New name must be different from old name'') \<rparr>, d)
                else
                  (let vocabulary = readVocabulary d;
                       oldTopicWords = filter (\<lambda>v. topic v = Some oldTopicName) vocabulary
                   in if length oldTopicWords = 0 then
                        (\<lparr> status = 404, body = Error (utf16 ''Topic not found'') \<rparr>, d)
                      else
                        (case find (\<lambda>v. topic v = Some newTopicName) vocabulary of
                           Some v \<Rightarrow>
                             (\<lparr> status = 400,
                                body = Error (utf16 ''New topic name already exists'') \<rparr>, d)
                         | None \<Rightarrow>
                             (let updatedVocabulary =
                                    map (\<lambda>v. if topic v = Some oldTopicName
                                              then v\<lparr>topic := Some newTopicName\<rparr> else v)
                                      vocabulary
                              in case writeVocabulary updatedVocabulary d of
                                   Inl e \<Rightarrow>
                                     (\<lparr> status = 500,
                                        body = Error (utf16 ''Failed to rename topic'') \<rparr>, d)
                                 | Inr d' \<Rightarrow>
                                     (\<lparr> status = 200,
                                        body = Ok (utf16 ''Topic renamed from '' @ [0x22]
                                                   @ oldTopicName @ [0x22] @ utf16 '' to ''
                                                   @ [0x22] @ newTopicName @ [0x22],
                                                   length oldTopicWords) \<rparr>, d')))))
      | _ \<Rightarrow> (\<lparr> status = 400, body = Error (utf16 ''Old name and new name are required'') \<rparr>, d))"

text \<open>\<^verbatim>\<open>String(n)\<close> for a length: its decimal digits.\<close>

fun decimal :: "nat \<Rightarrow> js_string" where
  "decimal n = (if n < 10 then [0x30 + of_nat n] else decimal (n div 10) @ [0x30 + of_nat (n mod 10)])"

declare decimal.simps [simp del]

definition topics_DELETE ::
  "disk \<Rightarrow> js_string option \<Rightarrow> (js_string \<times> nat) response \<times> disk" where
  "topics_DELETE d name =
     (case name of
        None \<Rightarrow> (\<lparr> status = 400, body = Error (utf16 ''Topic name is required'') \<rparr>, d)
      | Some n \<Rightarrow>
          if n = [] \<or> trim n = [] then
            (\<lparr> status = 400, body = Error (utf16 ''Topic name is required'') \<rparr>, d)
          else
            (let topicName = trim n;
                 vocabulary = readVocabulary d;
                 topicWords = filter (\<lambda>v. topic v = Some topicName) vocabulary
             in if length topicWords = 0 then
                  (\<lparr> status = 404, body = Error (utf16 ''Topic not found'') \<rparr>, d)
                else
                  (let updatedVocabulary = filter (\<lambda>v. topic v \<noteq> Some topicName) vocabulary
                   in case writeVocabulary updatedVocabulary d of
                        Inl e \<Rightarrow>
                          (\<lparr> status = 500, body = Error (utf16 ''Failed to delete topic'') \<rparr>, d)
                      | Inr d' \<Rightarrow>
                          (\<lparr> status = 200,
                             body = Ok (utf16 ''Topic '' @ [0x22] @ topicName @ [0x22]
                                        @ utf16 '' and '' @ decimal (length topicWords)
                                        @ utf16 '' words deleted successfully'',
                                        length topicWords) \<rparr>, d'))))"

section \<open>Notions of the specification\<close>

text \<open>
  The topic filter of a quiz request: in force when \<^verbatim>\<open>topic\<close> is a string that is
  neither empty nor \<^verbatim>\<open>'all'\<close>.
\<close>

definition topicFilter :: "query_value \<Rightarrow> js_string option" where
  "topicFilter q =
     (case q of
        Single t \<Rightarrow> if t \<noteq> [] \<and> t \<noteq> utf16 ''all'' then Some t else None
      | _ \<Rightarrow> None)"

text \<open>
  Three expressions of the quiz code, named: the \<^verbatim>\<open>filteredVocabulary\<close> of
  \<^verbatim>\<open>generateQuestion\<close>; the \<^verbatim>\<open>optionPool\<close> it builds for a question type and a
  correct answer, which is the values of the answer's field over the whole vocabulary
  that differ from the correct answer; and the \<^verbatim>\<open>quizMode\<close> that the GET handler
  passes to \<^verbatim>\<open>generateQuestion\<close>.
\<close>

definition filterByTopic :: "Vocabulary list \<Rightarrow> js_string option \<Rightarrow> Vocabulary list" where
  "filterByTopic vocabulary topic_arg =
     (case topic_arg of
        Some t \<Rightarrow>
          if t \<noteq> [] \<and> t \<noteq> utf16 ''all''
          then filter (\<lambda>v. topic v = Some t) vocabulary
          else vocabulary
      | None \<Rightarrow> vocabulary)"

definition optionPool ::
  "Vocabulary list \<Rightarrow> quiz_mode \<Rightarrow> js_string option \<Rightarrow> js_string option list" where
  "optionPool vocabulary questionType correctAnswer =
     (if questionType = Phonetic_to_meaning
      then filter (\<lambda>m. m \<noteq> correctAnswer) (map (\<lambda>v. Some (meaning v)) vocabulary)
      else filter (\<lambda>p. p \<noteq> correctAnswer) (map (\<lambda>v. phonetic v) vocabulary))"

definition quizMode_of :: "query_value \<Rightarrow> quiz_mode" where
  "quizMode_of mode_q =
     (case (case mode_q of Absent \<Rightarrow> Single (utf16 ''mixed'') | _ \<Rightarrow> mode_q) of
        Single m \<Rightarrow> (case map_of validModes m of Some q \<Rightarrow> q | None \<Rightarrow> Mixed)
      | _ \<Rightarrow> Mixed)"

text \<open>The store file is missing, or its text does not parse.\<close>

definition unreadable :: "disk \<Rightarrow> bool" where
  "unreadable d \<longleftrightarrow> contents d = None \<or> contents d = Some Malformed"

text \<open>The same disk with a store file that holds the empty array.\<close>

definition empty_store :: "disk \<Rightarrow> disk" where
  "empty_store d = d\<lparr>contents := Some (Json_array [])\<rparr>"

text \<open>
  A term occurs case-insensitively as a substring of a field: the lower-cased term is a
  contiguous part of the lower-cased field.
\<close>

definition occurs_in :: "unicode \<Rightarrow> js_string \<Rightarrow> js_string \<Rightarrow> bool" where
  "occurs_in U term field \<longleftrightarrow> sublist (toLowerCase U term) (toLowerCase U field)"



text \<open>No two records have words that are equal when lower-cased.\<close>

definition word_unique :: "unicode \<Rightarrow> Vocabulary list \<Rightarrow> bool" where
  "word_unique U vs \<longleftrightarrow> distinct (map (\<lambda>v. toLowerCase U (word v)) vs)"

text \<open>
  Renaming a topic in one record, and the store that a PUT /topics request leaves behind.
\<close>

definition rename :: "js_string \<Rightarrow> js_string \<Rightarrow> Vocabulary \<Rightarrow> Vocabulary" where
  "rename old new v = (if topic v = Some old then v\<lparr>topic := Some new\<rparr> else v)"

definition store_after_rename :: "disk \<Rightarrow> js_string \<Rightarrow> js_string \<Rightarrow> Vocabulary list" where
  "store_after_rename d old new = readVocabulary (snd (topics_PUT d (Some old) (Some new)))"

section \<open>Example data\<close>

text \<open>Four records, three of the topic \<^verbatim>\<open>animals\<close> and one of the topic \<^verbatim>\<open>food\<close>.\<close>

definition neko :: Vocabulary where
  "neko = \<lparr> v_id = 1, word = [0x306D, 0x3053], meaning = utf16 ''cat'',
            phonetic = Some (utf16 ''neko''), topic = Some (utf16 ''animals'') \<rparr>"

definition inu :: Vocabulary where
  "inu = \<lparr> v_id = 2, word = [0x3044, 0x306C], meaning = utf16 ''dog'',
           phonetic = Some (utf16 ''inu''), topic = Some (utf16 ''animals'') \<rparr>"

definition tori :: Vocabulary where
  "tori = \<lparr> v_id = 3, word = [0x3068, 0x308A], meaning = utf16 ''bird'',
            phonetic = Some (utf16 ''tori''), topic = Some (utf16 ''animals'') \<rparr>"

definition ringo :: Vocabulary where
  "ringo = \<lparr> v_id = 4, word = [0x308A, 0x3093, 0x3054], meaning = utf16 ''apple'',
             phonetic = Some (utf16 ''ringo''), topic = Some (utf16 ''food'') \<rparr>"

text \<open>Four records with different words and one meaning.\<close>

definition big :: "js_string \<Rightarrow> js_string \<Rightarrow> int \<Rightarrow> Vocabulary" where
  "big w p n = \<lparr> v_id = n, word = w, meaning = utf16 ''big'', phonetic = Some p,
                 topic = Some (utf16 ''adjectives'') \<rparr>"

definition synonyms :: "Vocabulary list" where
  "synonyms = [big [0x5927, 0x304D, 0x3044] (utf16 ''ookii'') 1,
               big [0x3067, 0x304B, 0x3044] (utf16 ''dekai'') 2,
               big [0x5DE8, 0x5927] (utf16 ''kyodai'') 3,
               big [0x83AB, 0x5927] (utf16 ''bakudai'') 4]"

text \<open>A record as the vocabulary handler writes it, and two request bodies.\<close>

definition cat_en :: Vocabulary where
  "cat_en = \<lparr> v_id = 1, word = utf16 ''cat'', meaning = utf16 ''con meo'',
              phonetic = None, topic = None \<rparr>"

definition post_neko :: vocabulary_body where
  "post_neko = \<lparr> b_id = None, b_word = Some [0x306D, 0x3053], b_meaning = Some (utf16 ''cat''),
                 b_phonetic = Some (utf16 ''neko''), b_topic = Some (utf16 ''animals'') \<rparr>"

definition post_cat_padded :: vocabulary_body where
  "post_cat_padded = \<lparr> b_id = None, b_word = Some (utf16 '' cat''),
                       b_meaning = Some (utf16 ''feline''),
                       b_phonetic = None, b_topic = None \<rparr>"



text \<open>A writable disk whose store file holds the given records.\<close>

definition disk_of :: "Vocabulary list \<Rightarrow> disk" where
  "disk_of vs = \<lparr> contents = Some (Json_array vs), writable = True \<rparr>"

text \<open>The generator that returns the same number at every call.\<close>

definition always :: "unit_interval \<Rightarrow> rng" where
  "always r = (\<lambda>n. r)"

section \<open>Reading and writing the store\<close>

lemma readVocabulary_disk_of: "readVocabulary (disk_of vs) = vs"
  by (simp add: disk_of_def readVocabulary_def fs_readFileSync_def JSON_parse_def)

lemma readVocabulary_unreadable: "unreadable d \<Longrightarrow> readVocabulary d = []"
  by (auto simp: unreadable_def readVocabulary_def fs_readFileSync_def JSON_parse_def)

lemma readVocabulary_empty_store: "readVocabulary (empty_store d) = []"
  by (simp add: empty_store_def readVocabulary_def fs_readFileSync_def JSON_parse_def)

lemma writeVocabulary_empty_store:
  "writeVocabulary vs (empty_store d) = writeVocabulary vs d"
  by (simp add: writeVocabulary_def empty_store_def)

lemma readVocabulary_written:
  "writeVocabulary vs d = Inr d' \<Longrightarrow> readVocabulary d' = vs"
  by (auto simp: writeVocabulary_def readVocabulary_def fs_readFileSync_def JSON_parse_def
      split: if_splits)

section \<open>GET /quiz: the status\<close>

lemma generateQuestion_None_iff:
  "generateQuestion vocabulary mode ta g = None \<longleftrightarrow>
     length vocabulary < 4 \<or>
     (case ta of
        Some t \<Rightarrow> if t \<noteq> [] \<and> t \<noteq> utf16 ''all''
                  then filter (\<lambda>v. topic v = Some t) vocabulary else vocabulary
      | None \<Rightarrow> vocabulary) = []"
  by (auto simp: generateQuestion_def Let_def split: prod.splits option.splits)

lemma quiz_GET_400:
  assumes "length (readVocabulary d) < 4
           \<or> (\<exists>t. topicFilter topic_q = Some t
                \<and> (\<forall>v \<in> set (readVocabulary d). topic v \<noteq> Some t))"
  shows "status (quiz_GET d mode_q topic_q g) = 400"
  using assms
  by (cases topic_q)
     (auto simp: quiz_GET_def Let_def topicFilter_def filter_empty_conv split: if_splits)

lemma quiz_GET_200:
  assumes "\<not> (length (readVocabulary d) < 4
              \<or> (\<exists>t. topicFilter topic_q = Some t
                   \<and> (\<forall>v \<in> set (readVocabulary d). topic v \<noteq> Some t)))"
  shows "\<exists>q mode ta. quiz_GET d mode_q topic_q g = \<lparr> status = 200, body = Ok q \<rparr>
            \<and> generateQuestion (readVocabulary d) mode ta g = Some q"
proof -
  let ?mode = "case (case mode_q of Absent \<Rightarrow> Single (utf16 ''mixed'') | _ \<Rightarrow> mode_q) of
                 Single m \<Rightarrow> (case map_of validModes m of Some q \<Rightarrow> q | None \<Rightarrow> Mixed)
               | _ \<Rightarrow> Mixed"
  let ?ta = "case topic_q of Single t \<Rightarrow> Some t | _ \<Rightarrow> None"
  from assms have "generateQuestion (readVocabulary d) ?mode ?ta g \<noteq> None"
    by (cases topic_q)
       (auto simp: generateQuestion_None_iff topicFilter_def filter_empty_conv split: if_splits)
  then obtain q where q: "generateQuestion (readVocabulary d) ?mode ?ta g = Some q"
    by blast
  from assms have "quiz_GET d mode_q topic_q g = \<lparr> status = 200, body = Ok q \<rparr>"
    using q
    by (cases topic_q)
       (auto simp: quiz_GET_def Let_def topicFilter_def filter_empty_conv split: if_splits)
  with q show ?thesis by blast
qed

text \<open>
  Claim C1.  GET /quiz answers 400 exactly when the store holds fewer than 4 records or
  a topic filter is in force that no record matches; in every other case it answers 200
  with the question that \<^verbatim>\<open>generateQuestion\<close> made.  In particular a store of fewer
  than 4 records gives 400 whatever the topic is.
\<close>

theorem quiz_GET_status:
  "(status (quiz_GET d mode_q topic_q g) = 400 \<longleftrightarrow>
      length (readVocabulary d) < 4
      \<or> (\<exists>t. topicFilter topic_q = Some t
           \<and> (\<forall>v \<in> set (readVocabulary d). topic v \<noteq> Some t)))
   \<and> (\<not> (length (readVocabulary d) < 4
          \<or> (\<exists>t. topicFilter topic_q = Some t
               \<and> (\<forall>v \<in> set (readVocabulary d). topic v \<noteq> Some t)))
        \<longrightarrow> (\<exists>q mode ta. quiz_GET d mode_q topic_q g = \<lparr> status = 200, body = Ok q \<rparr>
                \<and> generateQuestion (readVocabulary d) mode ta g = Some q))
   \<and> (length (readVocabulary d) < 4 \<longrightarrow> status (quiz_GET d mode_q topic_q g) = 400)"
proof -
  let ?P = "length (readVocabulary d) < 4
      \<or> (\<exists>t. topicFilter topic_q = Some t
           \<and> (\<forall>v \<in> set (readVocabulary d). topic v \<noteq> Some t))"
  have a: "?P \<Longrightarrow> status (quiz_GET d mode_q topic_q g) = 400"
    by (rule quiz_GET_400)
  have b: "\<not> ?P \<Longrightarrow>
      \<exists>q mode ta. quiz_GET d mode_q topic_q g = \<lparr> status = 200, body = Ok q \<rparr>
                \<and> generateQuestion (readVocabulary d) mode ta g = Some q"
    by (rule quiz_GET_200)
  have c: "\<not> ?P \<Longrightarrow> status (quiz_GET d mode_q topic_q g) \<noteq> 400"
    using b by fastforce
  show ?thesis using a b c by blast
qed

theorem quiz_GET_status_witness:
  "status (quiz_GET (disk_of [neko, inu, tori]) Absent (Single (utf16 ''animals''))
             (always draw_zero)) = 400
   \<and> status (quiz_GET (disk_of [neko, inu, tori, ringo]) Absent (Single (utf16 ''fruit''))
               (always draw_zero)) = 400
   \<and> (\<exists>q. quiz_GET (disk_of [neko, inu, tori, ringo]) Absent (Single (utf16 ''food''))
              (always draw_zero) = \<lparr> status = 200, body = Ok q \<rparr>)"
proof -
  have "length (readVocabulary (disk_of [neko, inu, tori])) < 4"
    by (simp add: readVocabulary_disk_of)
  moreover have "\<exists>t. topicFilter (Single (utf16 ''fruit'')) = Some t
      \<and> (\<forall>v \<in> set (readVocabulary (disk_of [neko, inu, tori, ringo])). topic v \<noteq> Some t)"
    by (simp add: readVocabulary_disk_of topicFilter_def utf16_def
        neko_def inu_def tori_def ringo_def)
  moreover have "\<not> (length (readVocabulary (disk_of [neko, inu, tori, ringo])) < 4
      \<or> (\<exists>t. topicFilter (Single (utf16 ''food'')) = Some t
           \<and> (\<forall>v \<in> set (readVocabulary (disk_of [neko, inu, tori, ringo])).
                 topic v \<noteq> Some t)))"
    by (simp add: readVocabulary_disk_of topicFilter_def utf16_def
        neko_def inu_def tori_def ringo_def)
  ultimately show ?thesis
    using quiz_GET_status [of "disk_of [neko, inu, tori]" Absent
        "Single (utf16 ''animals'')" "always draw_zero"]
      quiz_GET_status [of "disk_of [neko, inu, tori, ringo]" Absent
        "Single (utf16 ''fruit'')" "always draw_zero"]
      quiz_GET_status [of "disk_of [neko, inu, tori, ringo]" Absent
        "Single (utf16 ''food'')" "always draw_zero"]
    by blast
qed

section \<open>A missing or corrupt store file\<close>

lemma quiz_GET_unreadable:
  "unreadable d \<Longrightarrow> quiz_GET d m t g = quiz_GET (empty_store d) m t g"
  by (simp add: quiz_GET_def readVocabulary_unreadable readVocabulary_empty_store)

lemma vocabulary_GET_unreadable:
  "unreadable d \<Longrightarrow> vocabulary_GET U d s = vocabulary_GET U (empty_store d) s"
  by (simp add: vocabulary_GET_def readVocabulary_unreadable readVocabulary_empty_store)

lemma vocabulary_POST_unreadable:
  "unreadable d \<Longrightarrow>
     fst (vocabulary_POST U d b) = fst (vocabulary_POST U (empty_store d) b)
     \<and> readVocabulary (snd (vocabulary_POST U d b))
         = readVocabulary (snd (vocabulary_POST U (empty_store d) b))"
  by (auto simp: vocabulary_POST_def readVocabulary_unreadable readVocabulary_empty_store
        writeVocabulary_empty_store Let_def readVocabulary_written
      split: option.splits sum.splits)

lemma vocabulary_PUT_unreadable:
  "unreadable d \<Longrightarrow>
     fst (vocabulary_PUT U d b) = fst (vocabulary_PUT U (empty_store d) b)
     \<and> readVocabulary (snd (vocabulary_PUT U d b))
         = readVocabulary (snd (vocabulary_PUT U (empty_store d) b))"
  by (auto simp: vocabulary_PUT_def readVocabulary_unreadable readVocabulary_empty_store
        writeVocabulary_empty_store Let_def readVocabulary_written
      split: option.splits sum.splits)

lemma vocabulary_DELETE_unreadable:
  "unreadable d \<Longrightarrow>
     fst (vocabulary_DELETE d q) = fst (vocabulary_DELETE (empty_store d) q)
     \<and> readVocabulary (snd (vocabulary_DELETE d q))
         = readVocabulary (snd (vocabulary_DELETE (empty_store d) q))"
  by (auto simp: vocabulary_DELETE_def readVocabulary_unreadable readVocabulary_empty_store
        writeVocabulary_empty_store Let_def readVocabulary_written
      split: option.splits sum.splits query_value.splits)

lemma topics_GET_unreadable:
  "unreadable d \<Longrightarrow> topics_GET d = topics_GET (empty_store d)"
  by (simp add: topics_GET_def readVocabulary_unreadable readVocabulary_empty_store)

lemma topics_POST_unreadable:
  "unreadable d \<Longrightarrow> topics_POST d n = topics_POST (empty_store d) n"
  by (simp add: topics_POST_def readVocabulary_unreadable readVocabulary_empty_store
        Let_def split: option.splits)

lemma topics_PUT_unreadable:
  "unreadable d \<Longrightarrow>
     fst (topics_PUT d a b) = fst (topics_PUT (empty_store d) a b)
     \<and> readVocabulary (snd (topics_PUT d a b))
         = readVocabulary (snd (topics_PUT (empty_store d) a b))"
  by (auto simp: topics_PUT_def readVocabulary_unreadable readVocabulary_empty_store
        writeVocabulary_empty_store Let_def readVocabulary_written
      split: option.splits sum.splits)

lemma topics_DELETE_unreadable:
  "unreadable d \<Longrightarrow>
     fst (topics_DELETE d a) = fst (topics_DELETE (empty_store d) a)
     \<and> readVocabulary (snd (topics_DELETE d a))
         = readVocabulary (snd (topics_DELETE (empty_store d) a))"
  by (auto simp: topics_DELETE_def readVocabulary_unreadable readVocabulary_empty_store
        writeVocabulary_empty_store Let_def readVocabulary_written
      split: option.splits sum.splits)

text \<open>
  Claim C9.  When the store file is missing or does not parse, \<^verbatim>\<open>readVocabulary\<close>
  returns the empty array, and every endpoint that reads the store answers as it does
  over a store file holding the empty array, and leaves the same records behind: the
  two list requests answer 200 with an empty array and GET /quiz answers 400, none of
  them the 500 of a failure.
\<close>

theorem unreadable_store_is_empty:
  assumes "unreadable d"
  shows "readVocabulary d = []
    \<and> quiz_GET d mode_q topic_q g = quiz_GET (empty_store d) mode_q topic_q g
    \<and> status (quiz_GET d mode_q topic_q g) = 400
    \<and> vocabulary_GET U d search = \<lparr> status = 200, body = Ok [] \<rparr>
    \<and> vocabulary_GET U d search = vocabulary_GET U (empty_store d) search
    \<and> fst (vocabulary_POST U d b) = fst (vocabulary_POST U (empty_store d) b)
    \<and> readVocabulary (snd (vocabulary_POST U d b))
        = readVocabulary (snd (vocabulary_POST U (empty_store d) b))
    \<and> fst (vocabulary_PUT U d b) = fst (vocabulary_PUT U (empty_store d) b)
    \<and> readVocabulary (snd (vocabulary_PUT U d b))
        = readVocabulary (snd (vocabulary_PUT U (empty_store d) b))
    \<and> fst (vocabulary_DELETE d id_q) = fst (vocabulary_DELETE (empty_store d) id_q)
    \<and> readVocabulary (snd (vocabulary_DELETE d id_q))
        = readVocabulary (snd (vocabulary_DELETE (empty_store d) id_q))
    \<and> topics_GET d = \<lparr> status = 200, body = Ok [] \<rparr>
    \<and> topics_GET d = topics_GET (empty_store d)
    \<and> topics_POST d name = topics_POST (empty_store d) name
    \<and> fst (topics_PUT d oldName newName) = fst (topics_PUT (empty_store d) oldName newName)
    \<and> readVocabulary (snd (topics_PUT d oldName newName))
        = readVocabulary (snd (topics_PUT (empty_store d) oldName newName))
    \<and> fst (topics_DELETE d name) = fst (topics_DELETE (empty_store d) name)
    \<and> readVocabulary (snd (topics_DELETE d name))
        = readVocabulary (snd (topics_DELETE (empty_store d) name))"
proof -
  have "status (quiz_GET d mode_q topic_q g) = 400"
    using assms by (simp add: quiz_GET_def readVocabulary_unreadable)
  moreover have "vocabulary_GET U d search = \<lparr> status = 200, body = Ok [] \<rparr>"
    using assms
    by (simp add: vocabulary_GET_def readVocabulary_unreadable split: query_value.splits)
  moreover have "topics_GET d = \<lparr> status = 200, body = Ok [] \<rparr>"
    using assms by (simp add: topics_GET_def readVocabulary_unreadable)
  ultimately show ?thesis
    using assms readVocabulary_unreadable [OF assms] quiz_GET_unreadable [OF assms]
      vocabulary_GET_unreadable [OF assms] vocabulary_POST_unreadable [OF assms]
      vocabulary_PUT_unreadable [OF assms] vocabulary_DELETE_unreadable [OF assms]
      topics_GET_unreadable [OF assms] topics_POST_unreadable [OF assms]
      topics_PUT_unreadable [OF assms] topics_DELETE_unreadable [OF assms]
    by simp
qed

theorem unreadable_store_is_empty_witness:
  "readVocabulary \<lparr> contents = None, writable = True \<rparr> = []
   \<and> readVocabulary \<lparr> contents = Some Malformed, writable = True \<rparr> = []
   \<and> vocabulary_GET latin1 \<lparr> contents = Some Malformed, writable = True \<rparr> Absent
       = \<lparr> status = 200, body = Ok [] \<rparr>
   \<and> status (quiz_GET \<lparr> contents = None, writable = True \<rparr> Absent Absent (always draw_zero))
       = 400"
proof -
  have a: "unreadable \<lparr> contents = None, writable = True \<rparr>"
    by (simp add: unreadable_def)
  have b: "unreadable \<lparr> contents = Some Malformed, writable = True \<rparr>"
    by (simp add: unreadable_def)
  show ?thesis
    using unreadable_store_is_empty [OF a, where mode_q = Absent and topic_q = Absent
        and g = "always draw_zero" and U = latin1 and search = Absent
        and b = "\<lparr> b_id = None, b_word = None, b_meaning = None, b_phonetic = None,
                   b_topic = None \<rparr>"
        and id_q = Absent and name = None and oldName = None and newName = None]
      unreadable_store_is_empty [OF b, where mode_q = Absent and topic_q = Absent
        and g = "always draw_zero" and U = latin1 and search = Absent
        and b = "\<lparr> b_id = None, b_word = None, b_meaning = None, b_phonetic = None,
                   b_topic = None \<rparr>"
        and id_q = Absent and name = None and oldName = None and newName = None]
    by blast
qed

section \<open>Math.random and shuffleArray\<close>

lemma Math_random_range: "Math_random g = (r, g') \<Longrightarrow> 0 \<le> r \<and> r < 1"
  using Rep_unit_interval [of "g 0"] by (auto simp: Math_random_def)

lemma Math_floor_less:
  assumes "0 \<le> r" "r < 1" "0 < n"
  shows "Math_floor (r * real n) < n"
proof -
  have "r * real n < real n" using assms by simp
  moreover have "0 \<le> r * real n" using assms by simp
  ultimately show ?thesis
    unfolding Math_floor_def by (simp add: floor_less_iff nat_less_iff)
qed

text \<open>Every index the loop draws is in range, so each step swaps two entries.\<close>

lemma shuffle_loop_mset:
  "n < length xs \<Longrightarrow> mset (fst (shuffle_loop n xs g)) = mset xs"
proof (induction n arbitrary: xs g)
  case 0
  then show ?case by simp
next
  case (Suc n)
  obtain r g' where rg: "Math_random g = (r, g')" by (cases "Math_random g")
  let ?j = "Math_floor (r * real (Suc n + 1))"
  have "?j < Suc n + 1"
    using Math_random_range [OF rg] by (intro Math_floor_less) auto
  with Suc.prems have j: "?j < length xs" by simp
  have "mset (xs[Suc n := xs ! ?j, ?j := xs ! Suc n]) = mset xs"
    using Suc.prems j by (simp add: mset_swap)
  moreover have "n < length (xs[Suc n := xs ! ?j, ?j := xs ! Suc n])"
    using Suc.prems by simp
  ultimately show ?case
    using Suc.IH [of "xs[Suc n := xs ! ?j, ?j := xs ! Suc n]" g'] rg
    by (simp add: Let_def)
qed

lemma shuffleArray_mset: "mset (fst (shuffleArray xs g)) = mset xs"
proof (cases xs)
  case Nil
  then show ?thesis by (simp add: shuffleArray_def)
next
  case (Cons a list)
  then show ?thesis by (simp add: shuffleArray_def shuffle_loop_mset)
qed

section \<open>generateQuestion\<close>

lemma generateQuestion_item:
  assumes "generateQuestion vocabulary mode ta g = Some q"
  shows "\<exists>ci \<in> set (filterByTopic vocabulary ta).
           q_id q = v_id ci \<and> q_word q = word ci
           \<and> ((q_type q = Phonetic_to_meaning \<or> q_type q = Phonetic_to_meaning_text)
                 \<and> q_question q = phonetic ci \<and> q_correctAnswer q = Some (meaning ci)
               \<or> (q_type q = Meaning_to_phonetic \<or> q_type q = Meaning_to_phonetic_text)
                 \<and> q_question q = Some (meaning ci) \<and> q_correctAnswer q = phonetic ci)"
proof -
  let ?f = "filterByTopic vocabulary ta"
  obtain r g1 where rg: "Math_random g = (r, g1)" by (cases "Math_random g")
  from assms have ne: "?f \<noteq> []" and "\<not> length vocabulary < 4"
    by (auto simp: generateQuestion_def filterByTopic_def Let_def split: if_splits)
  let ?ci = "?f ! Math_floor (r * real (length ?f))"
  have "Math_floor (r * real (length ?f)) < length ?f"
    using Math_random_range [OF rg] ne by (intro Math_floor_less) auto
  then have "?ci \<in> set ?f" by simp
  moreover from assms rg ne have "q_id q = v_id ?ci \<and> q_word q = word ?ci
           \<and> ((q_type q = Phonetic_to_meaning \<or> q_type q = Phonetic_to_meaning_text)
                 \<and> q_question q = phonetic ?ci \<and> q_correctAnswer q = Some (meaning ?ci)
               \<or> (q_type q = Meaning_to_phonetic \<or> q_type q = Meaning_to_phonetic_text)
                 \<and> q_question q = Some (meaning ?ci) \<and> q_correctAnswer q = phonetic ?ci)"
    by (cases mode)
       (auto simp: generateQuestion_def filterByTopic_def [symmetric] Let_def
          split: if_splits prod.splits)
  ultimately show ?thesis by blast
qed

lemma generateQuestion_type:
  assumes "generateQuestion vocabulary mode ta g = Some q"
  shows "(mode = Mixed \<longrightarrow> q_type q = Phonetic_to_meaning \<or> q_type q = Meaning_to_phonetic)
       \<and> (mode = Mixed_text \<longrightarrow>
            q_type q = Phonetic_to_meaning_text \<or> q_type q = Meaning_to_phonetic_text)
       \<and> (mode \<noteq> Mixed \<and> mode \<noteq> Mixed_text \<longrightarrow> q_type q = mode)
       \<and> (q_inputType q = Multiple_choice \<longleftrightarrow>
            q_type q = Phonetic_to_meaning \<or> q_type q = Meaning_to_phonetic)
       \<and> (q_inputType q = Text_input \<longleftrightarrow> q_options q = None)"
  using assms
  by (cases mode) (auto simp: generateQuestion_def Let_def split: if_splits prod.splits)

lemma options_block:
  assumes "shuffleArray pool g2 = (sp, g3)"
  shows "\<exists>shuffledPool. mset shuffledPool = mset pool
           \<and> mset (fst (shuffleArray (ca # take 3 sp) g3))
               = add_mset ca (mset (take 3 shuffledPool))"
proof -
  have "mset sp = mset pool" using shuffleArray_mset [of pool g2] assms by simp
  moreover have "mset (fst (shuffleArray (ca # take 3 sp) g3)) = add_mset ca (mset (take 3 sp))"
    by (simp add: shuffleArray_mset)
  ultimately show ?thesis by blast
qed

lemma generateQuestion_options:
  assumes "generateQuestion vocabulary mode ta g = Some q"
      and "q_inputType q = Multiple_choice"
  shows "\<exists>opts shuffledPool. q_options q = Some opts
           \<and> mset shuffledPool = mset (optionPool vocabulary (q_type q) (q_correctAnswer q))
           \<and> mset opts = mset (q_correctAnswer q # take 3 shuffledPool)"
proof -
  from assms(1) have a: "filterByTopic vocabulary ta \<noteq> []" "\<not> length vocabulary < 4"
    by (auto simp: generateQuestion_def filterByTopic_def Let_def split: if_splits)
  show ?thesis
    using assms a
    by (cases mode)
       (auto simp: generateQuestion_def filterByTopic_def [symmetric] optionPool_def Let_def
          simp del: mset_filter mset_map
          split: if_splits prod.splits intro!: options_block)
qed

section \<open>GET /quiz: the question\<close>

lemma quiz_GET_Ok:
  assumes "quiz_GET d mode_q topic_q g = \<lparr> status = s, body = Ok q \<rparr>"
  shows "s = 200 \<and> generateQuestion (readVocabulary d) (quizMode_of mode_q)
                      (case topic_q of Single t \<Rightarrow> Some t | _ \<Rightarrow> None) g = Some q"
  using assms
  by (auto simp: quiz_GET_def quizMode_of_def Let_def split: if_splits option.splits)

lemma topicFilter_filterByTopic:
  "topicFilter topic_q = Some t \<Longrightarrow>
     filterByTopic vs (case topic_q of Single t \<Rightarrow> Some t | _ \<Rightarrow> None)
       = filter (\<lambda>v. topic v = Some t) vs"
  by (auto simp: topicFilter_def filterByTopic_def split: query_value.splits if_splits)

text \<open>
  Claim C2.  When a topic filter is in force (the topic is a string that is neither empty
  nor \<^verbatim>\<open>'all'\<close>) and GET /quiz answers 200, the question is made from a record of
  the store whose topic is the filter: its id, its word, and its phonetic and meaning as
  question and correct answer.  The options are the correct answer and up to three
  entries of a shuffle of the option pool, and the pool is taken over the whole store,
  not over the records of the topic.
\<close>

theorem quiz_topic_filter:
  assumes "topicFilter topic_q = Some t"
      and "quiz_GET d mode_q topic_q g = \<lparr> status = 200, body = Ok q \<rparr>"
  shows "(\<exists>ci \<in> set (readVocabulary d).
            topic ci = Some t \<and> q_id q = v_id ci \<and> q_word q = word ci
            \<and> (q_question q = phonetic ci \<and> q_correctAnswer q = Some (meaning ci)
                \<or> q_question q = Some (meaning ci) \<and> q_correctAnswer q = phonetic ci))
       \<and> (\<forall>opts. q_options q = Some opts \<longrightarrow>
            (\<exists>shuffledPool.
               mset shuffledPool
                 = mset (optionPool (readVocabulary d) (q_type q) (q_correctAnswer q))
               \<and> mset opts = mset (q_correctAnswer q # take 3 shuffledPool))
            \<and> set opts \<subseteq> insert (q_correctAnswer q)
                           (set (optionPool (readVocabulary d) (q_type q) (q_correctAnswer q))))"
proof -
  let ?ta = "case topic_q of Single t \<Rightarrow> Some t | _ \<Rightarrow> None"
  from quiz_GET_Ok [OF assms(2)]
  have gq: "generateQuestion (readVocabulary d) (quizMode_of mode_q) ?ta g = Some q"
    by simp
  from generateQuestion_item [OF gq] topicFilter_filterByTopic [OF assms(1)]
  have item: "\<exists>ci \<in> set (readVocabulary d).
            topic ci = Some t \<and> q_id q = v_id ci \<and> q_word q = word ci
            \<and> (q_question q = phonetic ci \<and> q_correctAnswer q = Some (meaning ci)
                \<or> q_question q = Some (meaning ci) \<and> q_correctAnswer q = phonetic ci)"
    by auto
  have opts: "(\<exists>shuffledPool.
               mset shuffledPool
                 = mset (optionPool (readVocabulary d) (q_type q) (q_correctAnswer q))
               \<and> mset opts = mset (q_correctAnswer q # take 3 shuffledPool))
            \<and> set opts \<subseteq> insert (q_correctAnswer q)
                           (set (optionPool (readVocabulary d) (q_type q) (q_correctAnswer q)))"
    if "q_options q = Some opts" for opts
  proof -
    from that generateQuestion_type [OF gq] have "q_inputType q = Multiple_choice"
      by (cases "q_inputType q") auto
    from generateQuestion_options [OF gq this] that
    obtain sp where sp: "mset sp
                 = mset (optionPool (readVocabulary d) (q_type q) (q_correctAnswer q))"
      and o: "mset opts = mset (q_correctAnswer q # take 3 sp)"
      by auto
    from sp have "set sp = set (optionPool (readVocabulary d) (q_type q) (q_correctAnswer q))"
      by (rule mset_eq_setD)
    moreover from o have "set opts = set (q_correctAnswer q # take 3 sp)"
      by (rule mset_eq_setD)
    moreover have "set (take 3 sp) \<subseteq> set sp"
      by (rule set_take_subset)
    ultimately have "set opts \<subseteq> insert (q_correctAnswer q)
                           (set (optionPool (readVocabulary d) (q_type q) (q_correctAnswer q)))"
      by auto
    with sp o show ?thesis by blast
  qed
  from item opts show ?thesis by blast
qed

lemma Math_random_always: "Math_random (always r) = (Rep_unit_interval r, always r)"
  by (simp add: Math_random_def always_def)

lemma Math_floor_0: "Math_floor 0 = 0"
  by (simp add: Math_floor_def)

lemma food_question:
  "quiz_GET (disk_of [neko, inu, tori, ringo]) (Single (utf16 ''phonetic-to-meaning''))
     (Single (utf16 ''food'')) (always draw_zero)
   = \<lparr> status = 200,
       body = Ok \<lparr> q_id = 4, q_question = Some (utf16 ''ringo''),
                   q_correctAnswer = Some (utf16 ''apple''),
                   q_options = Some [Some (utf16 ''dog''), Some (utf16 ''bird''),
                                     Some (utf16 ''cat''), Some (utf16 ''apple'')],
                   q_type = Phonetic_to_meaning, q_word = [0x308A, 0x3093, 0x3054],
                   q_inputType = Multiple_choice \<rparr> \<rparr>"
  by (simp add: quiz_GET_def readVocabulary_disk_of generateQuestion_def validModes_def
      shuffleArray_def Math_random_always draw_zero.rep_eq Math_floor_0
      neko_def inu_def tori_def ringo_def utf16_def Let_def)

theorem quiz_topic_filter_witness:
  "quiz_GET (disk_of [neko, inu, tori, ringo]) (Single (utf16 ''phonetic-to-meaning''))
     (Single (utf16 ''food'')) (always draw_zero)
   = \<lparr> status = 200,
       body = Ok \<lparr> q_id = 4, q_question = Some (utf16 ''ringo''),
                   q_correctAnswer = Some (utf16 ''apple''),
                   q_options = Some [Some (utf16 ''dog''), Some (utf16 ''bird''),
                                     Some (utf16 ''cat''), Some (utf16 ''apple'')],
                   q_type = Phonetic_to_meaning, q_word = [0x308A, 0x3093, 0x3054],
                   q_inputType = Multiple_choice \<rparr> \<rparr>
   \<and> (\<exists>ci \<in> set (readVocabulary (disk_of [neko, inu, tori, ringo])).
         topic ci = Some (utf16 ''food'') \<and> v_id ci = 4)
   \<and> meaning inu = utf16 ''dog'' \<and> topic inu \<noteq> Some (utf16 ''food'')"
proof -
  have f: "topicFilter (Single (utf16 ''food'')) = Some (utf16 ''food'')"
    by (simp add: topicFilter_def utf16_def)
  have "meaning inu = utf16 ''dog'' \<and> topic inu \<noteq> Some (utf16 ''food'')"
    by (simp add: inu_def utf16_def)
  then show ?thesis
    using quiz_topic_filter [OF f food_question] food_question by auto
qed

lemma quizMode_of_invalid:
  assumes "m \<notin> {utf16 ''phonetic-to-meaning'', utf16 ''meaning-to-phonetic'', utf16 ''mixed'',
             utf16 ''phonetic-to-meaning-text'', utf16 ''meaning-to-phonetic-text'',
             utf16 ''mixed-text''}"
  shows "quizMode_of (Single m) = Mixed"
  using assms by (simp add: quizMode_of_def validModes_def)

lemma quizMode_of_mixed: "quizMode_of (Single (utf16 ''mixed'')) = Mixed"
  by (simp add: quizMode_of_def validModes_def utf16_def)

lemma quiz_GET_quizMode_of:
  "quizMode_of m = quizMode_of m' \<Longrightarrow> quiz_GET d m topic_q g = quiz_GET d m' topic_q g"
  by (simp add: quiz_GET_def quizMode_of_def Let_def)

text \<open>
  Claim C10.  A mode string that is none of the six valid modes is not rejected: over a
  store of at least 4 records, with a topic filter (if any) that matches a record, the
  answer is that of mode \<^verbatim>\<open>'mixed'\<close>, status 200 with a multiple-choice question.
\<close>

theorem quiz_invalid_mode_is_mixed:
  assumes "m \<notin> {utf16 ''phonetic-to-meaning'', utf16 ''meaning-to-phonetic'', utf16 ''mixed'',
             utf16 ''phonetic-to-meaning-text'', utf16 ''meaning-to-phonetic-text'',
             utf16 ''mixed-text''}"
      and "4 \<le> length (readVocabulary d)"
      and "\<forall>t. topicFilter topic_q = Some t \<longrightarrow> (\<exists>v \<in> set (readVocabulary d). topic v = Some t)"
  shows "quiz_GET d (Single m) topic_q g = quiz_GET d (Single (utf16 ''mixed'')) topic_q g
       \<and> (\<exists>q opts. quiz_GET d (Single m) topic_q g = \<lparr> status = 200, body = Ok q \<rparr>
             \<and> q_inputType q = Multiple_choice
             \<and> (q_type q = Phonetic_to_meaning \<or> q_type q = Meaning_to_phonetic)
             \<and> q_options q = Some opts)"
proof -
  have eq: "quiz_GET d (Single m) topic_q g = quiz_GET d (Single (utf16 ''mixed'')) topic_q g"
    by (rule quiz_GET_quizMode_of) (simp add: quizMode_of_invalid [OF assms(1)] quizMode_of_mixed)
  have "\<not> (length (readVocabulary d) < 4
          \<or> (\<exists>t. topicFilter topic_q = Some t
               \<and> (\<forall>v \<in> set (readVocabulary d). topic v \<noteq> Some t)))"
    using assms(2,3) by auto
  from quiz_GET_200 [OF this, of "Single m" g]
  obtain q where q: "quiz_GET d (Single m) topic_q g = \<lparr> status = 200, body = Ok q \<rparr>"
    by blast
  from quiz_GET_Ok [OF q] quizMode_of_invalid [OF assms(1)]
  have gq: "generateQuestion (readVocabulary d) Mixed
              (case topic_q of Single t \<Rightarrow> Some t | _ \<Rightarrow> None) g = Some q"
    by simp
  from generateQuestion_type [OF gq]
  have t: "q_type q = Phonetic_to_meaning \<or> q_type q = Meaning_to_phonetic"
    and i: "q_inputType q = Multiple_choice"
    by auto
  from generateQuestion_options [OF gq i] obtain opts where "q_options q = Some opts"
    by blast
  with eq q t i show ?thesis by blast
qed

theorem quiz_invalid_mode_is_mixed_witness:
  "utf16 ''bogus'' \<notin> {utf16 ''phonetic-to-meaning'', utf16 ''meaning-to-phonetic'',
      utf16 ''mixed'', utf16 ''phonetic-to-meaning-text'', utf16 ''meaning-to-phonetic-text'',
      utf16 ''mixed-text''}
   \<and> length (readVocabulary (disk_of [neko, inu, tori, ringo])) = 4
   \<and> topicFilter Absent = None
   \<and> quiz_GET (disk_of [neko, inu, tori, ringo]) (Single (utf16 ''bogus'')) Absent
        (always draw_half)
      = quiz_GET (disk_of [neko, inu, tori, ringo]) (Single (utf16 ''mixed'')) Absent
          (always draw_half)
   \<and> (\<exists>q opts. quiz_GET (disk_of [neko, inu, tori, ringo]) (Single (utf16 ''bogus'')) Absent
                   (always draw_half) = \<lparr> status = 200, body = Ok q \<rparr>
         \<and> q_inputType q = Multiple_choice \<and> q_options q = Some opts)"
proof -
  have a: "utf16 ''bogus'' \<notin> {utf16 ''phonetic-to-meaning'', utf16 ''meaning-to-phonetic'',
      utf16 ''mixed'', utf16 ''phonetic-to-meaning-text'', utf16 ''meaning-to-phonetic-text'',
      utf16 ''mixed-text''}"
    by (simp add: utf16_def)
  have b: "4 \<le> length (readVocabulary (disk_of [neko, inu, tori, ringo]))"
    and b': "length (readVocabulary (disk_of [neko, inu, tori, ringo])) = 4"
    by (simp_all add: readVocabulary_disk_of)
  have c: "topicFilter Absent = None"
    by (simp add: topicFilter_def)
  then have c': "\<forall>t. topicFilter Absent = Some t \<longrightarrow>
      (\<exists>v \<in> set (readVocabulary (disk_of [neko, inu, tori, ringo])). topic v = Some t)"
    by simp
  show ?thesis
    using quiz_invalid_mode_is_mixed [OF a b c', of "always draw_half"] a b' c by blast
qed

lemma generateQuestion_options_length:
  assumes "generateQuestion vocabulary mode ta g = Some q"
      and "q_options q = Some opts"
  shows "length opts = 1 + min 3 (length (optionPool vocabulary (q_type q) (q_correctAnswer q)))
       \<and> q_correctAnswer q \<in> set opts"
proof -
  from assms generateQuestion_type [OF assms(1)] have "q_inputType q = Multiple_choice"
    by (cases "q_inputType q") auto
  from generateQuestion_options [OF assms(1) this] assms(2)
  obtain sp where sp: "mset sp = mset (optionPool vocabulary (q_type q) (q_correctAnswer q))"
    and o: "mset opts = mset (q_correctAnswer q # take 3 sp)"
    by auto
  from sp have "length sp = length (optionPool vocabulary (q_type q) (q_correctAnswer q))"
    by (metis size_mset)
  moreover from o have "length opts = length (q_correctAnswer q # take 3 sp)"
    by (metis size_mset)
  moreover from o have "set opts = set (q_correctAnswer q # take 3 sp)"
    by (metis set_mset_mset)
  ultimately show ?thesis by (simp add: min.commute)
qed

text \<open>
  Claim C3.  The options need not be 4: over the four records of \<open>synonyms\<close>, which
  share one meaning, GET /quiz?mode=phonetic-to-meaning answers 200 with an options array
  of one entry, the correct answer, whatever \<^verbatim>\<open>Math.random\<close> returns.  In general
  the array has one entry more than the pool has, up to 4
  (\<open>generateQuestion_options_length\<close>).
\<close>

theorem quiz_options_one_entry:
  "\<exists>q. quiz_GET (disk_of synonyms) (Single (utf16 ''phonetic-to-meaning'')) Absent g
           = \<lparr> status = 200, body = Ok q \<rparr>
        \<and> q_correctAnswer q = Some (utf16 ''big'')
        \<and> q_options q = Some [Some (utf16 ''big'')]"
proof -
  let ?d = "disk_of synonyms"
  let ?m = "Single (utf16 ''phonetic-to-meaning'')"
  have "\<not> (length (readVocabulary ?d) < 4
          \<or> (\<exists>t. topicFilter Absent = Some t
               \<and> (\<forall>v \<in> set (readVocabulary ?d). topic v \<noteq> Some t)))"
    by (simp add: readVocabulary_disk_of synonyms_def topicFilter_def)
  from quiz_GET_200 [OF this, of ?m g]
  obtain q where q: "quiz_GET ?d ?m Absent g = \<lparr> status = 200, body = Ok q \<rparr>"
    by blast
  have m: "quizMode_of ?m = Phonetic_to_meaning"
    by (simp add: quizMode_of_def validModes_def utf16_def)
  from quiz_GET_Ok [OF q] m
  have gq: "generateQuestion synonyms Phonetic_to_meaning None g = Some q"
    by (simp add: readVocabulary_disk_of)
  from generateQuestion_type [OF gq] have t: "q_type q = Phonetic_to_meaning"
    and i: "q_inputType q = Multiple_choice"
    by auto
  from generateQuestion_item [OF gq] t have ca: "q_correctAnswer q = Some (utf16 ''big'')"
    by (auto simp: filterByTopic_def synonyms_def big_def)
  have pool: "optionPool synonyms (q_type q) (q_correctAnswer q) = []"
    by (simp add: optionPool_def t ca synonyms_def big_def)
  from generateQuestion_options [OF gq i] pool
  obtain opts where "q_options q = Some opts" "mset opts = mset [q_correctAnswer q]"
    by auto
  then have "q_options q = Some [Some (utf16 ''big'')]"
    using ca by (cases opts) auto
  with q ca show ?thesis by blast
qed

section \<open>The text-answer check\<close>

lemma includes_js_sublist: "includes_js s t \<longleftrightarrow> sublist t s"
  by (induction s) (simp_all add: sublist_Cons_right)

lemma latin1_simps:
  "toLowerCase latin1 = latin1_toLowerCase"
  "normalizeNFD latin1 = (\<lambda>s. concat (map latin1_decompose s))"
  "normalizeNFC latin1 = (\<lambda>s. s)"
  by (simp_all add: latin1_def)








































section \<open>GET /vocabulary\<close>

text \<open>
  Claim C8.  The search of GET /vocabulary looks at the word and the meaning only: the
  term \<^verbatim>\<open>animals\<close> occurs in the topic of the one record of the store and the term
  \<^verbatim>\<open>neko\<close> in its phonetic, and the search for either returns no record.
\<close>

theorem search_skips_topic:
  "topic neko = Some (utf16 ''animals'')
   \<and> occurs_in latin1 (utf16 ''animals'') (utf16 ''animals'')
   \<and> vocabulary_GET latin1 (disk_of [neko]) (Single (utf16 ''animals''))
       = \<lparr> status = 200, body = Ok [] \<rparr>
   \<and> phonetic neko = Some (utf16 ''neko'')
   \<and> occurs_in latin1 (utf16 ''neko'') (utf16 ''neko'')
   \<and> vocabulary_GET latin1 (disk_of [neko]) (Single (utf16 ''neko''))
       = \<lparr> status = 200, body = Ok [] \<rparr>"
  by (simp add: vocabulary_GET_def readVocabulary_disk_of occurs_in_def neko_def latin1_simps
      latin1_toLowerCase_def utf16_def)

text \<open>
  What the handler returns: with a non-empty search term, the records of the store, in
  its order, in which the term occurs case-insensitively as a substring of the word or
  of the meaning; without a search term, or with an empty one, the whole store.
\<close>

lemma vocabulary_GET_filter:
  "(search = Single s \<and> s \<noteq> [] \<longrightarrow>
      vocabulary_GET U d search
        = \<lparr> status = 200,
            body = Ok (filter (\<lambda>v. occurs_in U s (word v) \<or> occurs_in U s (meaning v))
                         (readVocabulary d)) \<rparr>)
   \<and> (search = Absent \<or> search = Single [] \<longrightarrow>
        vocabulary_GET U d search = \<lparr> status = 200, body = Ok (readVocabulary d) \<rparr>)"
  by (auto simp: vocabulary_GET_def occurs_in_def includes_js_sublist Let_def)

section \<open>POST /vocabulary\<close>

text \<open>
  Claim C6.  The created record does not carry the phonetic and the topic of the
  request: a POST that supplies word, meaning, phonetic and topic to an empty store is
  answered 201 with a record that has neither phonetic nor topic, and the store then
  holds that record.
\<close>

theorem POST_drops_phonetic_and_topic:
  "vocabulary_POST latin1 (disk_of []) post_neko
   = (\<lparr> status = 201,
        body = Ok \<lparr> v_id = 1, word = [0x306D, 0x3053], meaning = utf16 ''cat'',
                    phonetic = None, topic = None \<rparr> \<rparr>,
      disk_of [\<lparr> v_id = 1, word = [0x306D, 0x3053], meaning = utf16 ''cat'',
                 phonetic = None, topic = None \<rparr>])"
  by (simp add: vocabulary_POST_def post_neko_def readVocabulary_def fs_readFileSync_def
      JSON_parse_def getNextId_def writeVocabulary_def disk_of_def trim_def isWhiteSpace_def
      utf16_def Let_def)

section \<open>Uniqueness of the word\<close>

text \<open>
  Claim C5.  The duplicate check compares the word as it was sent, and the record stores
  it trimmed: over a store whose one record has the word \<^verbatim>\<open>cat\<close>, a POST of the word
  \<^verbatim>\<open>" cat"\<close> is answered 201 and leaves two records with the word \<^verbatim>\<open>cat\<close>.
\<close>

theorem POST_padded_word_duplicates:
  "word_unique latin1 [cat_en]
   \<and> vocabulary_POST latin1 (disk_of [cat_en]) post_cat_padded
     = (\<lparr> status = 201,
          body = Ok \<lparr> v_id = 2, word = utf16 ''cat'', meaning = utf16 ''feline'',
                      phonetic = None, topic = None \<rparr> \<rparr>,
        disk_of [cat_en, \<lparr> v_id = 2, word = utf16 ''cat'', meaning = utf16 ''feline'',
                           phonetic = None, topic = None \<rparr>])
   \<and> \<not> word_unique latin1 [cat_en, \<lparr> v_id = 2, word = utf16 ''cat'', meaning = utf16 ''feline'',
                           phonetic = None, topic = None \<rparr>]"
  by (simp add: vocabulary_POST_def post_cat_padded_def readVocabulary_def fs_readFileSync_def
      JSON_parse_def getNextId_def writeVocabulary_def disk_of_def trim_def isWhiteSpace_def
      utf16_def cat_en_def word_unique_def latin1_simps latin1_toLowerCase_def Let_def)

text \<open>
  What holds of uniqueness: a POST whose word, as sent, equals a stored word when both
  are lower-cased is rejected with 400 and writes nothing, and so is a PUT whose word
  equals in that way the word of another record; deleting a record, renaming a topic and
  deleting a topic keep the words unique; so does a POST whose word has no surrounding
  white space.
\<close>

lemma vocabulary_POST_rejects:
  assumes "b_word b = Some w" and "w \<noteq> []" and "b_meaning b = Some m" and "m \<noteq> []"
      and "\<exists>v \<in> set (readVocabulary d). toLowerCase U (word v) = toLowerCase U w"
  shows "vocabulary_POST U d b
           = (\<lparr> status = 400, body = Error (utf16 ''Word already exists'') \<rparr>, d)"
proof -
  from assms(5)
  obtain v where "find (\<lambda>v. toLowerCase U (word v) = toLowerCase U w) (readVocabulary d) = Some v"
    by (cases "find (\<lambda>v. toLowerCase U (word v) = toLowerCase U w) (readVocabulary d)")
       (auto simp: find_None_iff)
  with assms(1-4) show ?thesis
    by (simp add: vocabulary_POST_def Let_def)
qed

lemma findIndex_Some:
  "\<exists>x \<in> set xs. P x \<Longrightarrow> \<exists>i. findIndex P xs = Some i"
  by (induction xs) auto

lemma vocabulary_PUT_rejects:
  assumes "b_id b = Some i" and "i \<noteq> 0"
      and "b_word b = Some w" and "w \<noteq> []" and "b_meaning b = Some m" and "m \<noteq> []"
      and "\<exists>v \<in> set (readVocabulary d). v_id v = i"
      and "\<exists>v \<in> set (readVocabulary d).
             toLowerCase U (word v) = toLowerCase U w \<and> v_id v \<noteq> i"
  shows "vocabulary_PUT U d b
           = (\<lparr> status = 400, body = Error (utf16 ''Word already exists'') \<rparr>, d)"
proof -
  from findIndex_Some [OF assms(7)]
  obtain k where k: "findIndex (\<lambda>v. v_id v = i) (readVocabulary d) = Some k"
    by blast
  from assms(8)
  obtain v where v: "find (\<lambda>v. toLowerCase U (word v) = toLowerCase U w \<and> v_id v \<noteq> i)
                       (readVocabulary d) = Some v"
    by (cases "find (\<lambda>v. toLowerCase U (word v) = toLowerCase U w \<and> v_id v \<noteq> i)
                 (readVocabulary d)")
       (auto simp: find_None_iff)
  from assms(1-6) k v show ?thesis
    by (simp add: vocabulary_PUT_def Let_def)
qed

lemma word_unique_filter: "word_unique U vs \<Longrightarrow> word_unique U (filter P vs)"
  by (simp add: word_unique_def distinct_map_filter)

lemma word_unique_retopic:
  "word_unique U (map (\<lambda>v. if P v then v\<lparr>topic := t\<rparr> else v) vs) = word_unique U vs"
proof -
  have "map (\<lambda>v. toLowerCase U (word v)) (map (\<lambda>v. if P v then v\<lparr>topic := t\<rparr> else v) vs)
          = map (\<lambda>v. toLowerCase U (word v)) vs"
    by (induction vs) auto
  then show ?thesis by (simp only: word_unique_def)
qed

lemma vocabulary_DELETE_word_unique:
  "word_unique U (readVocabulary d) \<Longrightarrow>
     word_unique U (readVocabulary (snd (vocabulary_DELETE d id_q)))"
  by (auto simp: vocabulary_DELETE_def Let_def word_unique_filter
      dest: readVocabulary_written split: query_value.splits sum.splits)

lemma topics_PUT_word_unique:
  "word_unique U (readVocabulary d) \<Longrightarrow>
     word_unique U (readVocabulary (snd (topics_PUT d oldName newName)))"
  by (auto simp: topics_PUT_def Let_def word_unique_retopic
      dest!: readVocabulary_written split: option.splits sum.splits)

lemma topics_DELETE_word_unique:
  "word_unique U (readVocabulary d) \<Longrightarrow>
     word_unique U (readVocabulary (snd (topics_DELETE d name)))"
  by (auto simp: topics_DELETE_def Let_def word_unique_filter
      dest!: readVocabulary_written split: option.splits sum.splits)

lemma vocabulary_POST_word_unique:
  assumes "word_unique U (readVocabulary d)"
      and "\<forall>w. b_word b = Some w \<longrightarrow> trim w = w"
  shows "word_unique U (readVocabulary (snd (vocabulary_POST U d b)))"
  using assms
  apply (auto simp: vocabulary_POST_def Let_def word_unique_def find_None_iff
      dest!: readVocabulary_written split: option.splits sum.splits)
  apply blast
  done

section \<open>PUT /topics\<close>

text \<open>
  Claim C7, as stated, fails: a record has the topic \<^verbatim>\<open>animals\<close> and no record has the
  topic \<^verbatim>\<open>"food "\<close> (with the space), yet the rename of \<^verbatim>\<open>animals\<close> to \<^verbatim>\<open>"food "\<close>
  is answered 400 and the store stays as it was, because the handler trims the names
  and \<^verbatim>\<open>food\<close> is taken.
\<close>

theorem rename_trims_new_name:
  "topic neko = Some (utf16 ''animals'')
   \<and> topic neko \<noteq> Some (utf16 ''food '') \<and> topic ringo \<noteq> Some (utf16 ''food '')
   \<and> topics_PUT (disk_of [neko, ringo]) (Some (utf16 ''animals'')) (Some (utf16 ''food ''))
     = (\<lparr> status = 400, body = Error (utf16 ''New topic name already exists'') \<rparr>,
        disk_of [neko, ringo])"
  by (simp add: topics_PUT_def readVocabulary_disk_of Let_def trim_def isWhiteSpace_def
      neko_def ringo_def utf16_def)

lemma topics_PUT_ok:
  assumes "old \<noteq> []" and "new \<noteq> []"
      and "\<exists>v \<in> set (readVocabulary d). topic v = Some (trim old)"
      and "\<forall>v \<in> set (readVocabulary d). topic v \<noteq> Some (trim new)"
      and "writable d"
  shows "\<exists>message.
           topics_PUT d (Some old) (Some new)
             = (\<lparr> status = 200,
                  body = Ok (message, length (filter (\<lambda>v. topic v = Some (trim old))
                                                (readVocabulary d))) \<rparr>,
                d\<lparr>contents := Some (Json_array (map (rename (trim old) (trim new))
                                                   (readVocabulary d)))\<rparr>)"
proof -
  let ?vs = "readVocabulary d"
  from assms(3,4) have ne: "trim old \<noteq> trim new" by auto
  from assms(3) have some: "filter (\<lambda>v. topic v = Some (trim old)) ?vs \<noteq> []"
    by (simp add: filter_empty_conv)
  from assms(4) have none: "find (\<lambda>v. topic v = Some (trim new)) ?vs = None"
    by (simp add: find_None_iff)
  have m: "(\<lambda>v. if topic v = Some (trim old) then v\<lparr>topic := Some (trim new)\<rparr> else v)
             = rename (trim old) (trim new)"
    by (simp add: rename_def fun_eq_iff)
  show ?thesis
    using assms(1,2,5) ne some none
    by (simp add: topics_PUT_def Let_def m writeVocabulary_def)
qed

lemma rename_frame:
  "i < length vs \<Longrightarrow>
     (topic (vs ! i) = Some old \<longrightarrow> topic (map (rename old new) vs ! i) = Some new)
     \<and> (topic (vs ! i) \<noteq> Some old \<longrightarrow> map (rename old new) vs ! i = vs ! i)
     \<and> v_id (map (rename old new) vs ! i) = v_id (vs ! i)
     \<and> word (map (rename old new) vs ! i) = word (vs ! i)
     \<and> meaning (map (rename old new) vs ! i) = meaning (vs ! i)
     \<and> phonetic (map (rename old new) vs ! i) = phonetic (vs ! i)"
  by (simp add: rename_def)

text \<open>
  Claim C7, amended.  For a PUT /topics request with non-empty names where, with both
  names trimmed of surrounding white space, at least one record has the old name as
  topic and no record has the new one, and the store file can be written: the answer is
  200 and the store becomes the old one with the topic set to the trimmed new name on
  every record whose topic was the trimmed old name.  Every other record is unchanged,
  and on the renamed records id, word, meaning and phonetic are unchanged.
\<close>

theorem topics_PUT_renames:
  assumes "old \<noteq> []" and "new \<noteq> []"
      and "\<exists>v \<in> set (readVocabulary d). topic v = Some (trim old)"
      and "\<forall>v \<in> set (readVocabulary d). topic v \<noteq> Some (trim new)"
      and "writable d"
  shows "status (fst (topics_PUT d (Some old) (Some new))) = 200
       \<and> store_after_rename d old new
           = map (rename (trim old) (trim new)) (readVocabulary d)
       \<and> length (store_after_rename d old new) = length (readVocabulary d)
       \<and> (\<forall>i < length (readVocabulary d).
             (topic (readVocabulary d ! i) = Some (trim old)
                \<longrightarrow> topic (store_after_rename d old new ! i) = Some (trim new))
             \<and> (topic (readVocabulary d ! i) \<noteq> Some (trim old)
                \<longrightarrow> store_after_rename d old new ! i = readVocabulary d ! i)
             \<and> v_id (store_after_rename d old new ! i) = v_id (readVocabulary d ! i)
             \<and> word (store_after_rename d old new ! i) = word (readVocabulary d ! i)
             \<and> meaning (store_after_rename d old new ! i) = meaning (readVocabulary d ! i)
             \<and> phonetic (store_after_rename d old new ! i) = phonetic (readVocabulary d ! i))"
proof -
  from topics_PUT_ok [OF assms] obtain message where
    p: "topics_PUT d (Some old) (Some new)
          = (\<lparr> status = 200,
               body = Ok (message, length (filter (\<lambda>v. topic v = Some (trim old))
                                             (readVocabulary d))) \<rparr>,
             d\<lparr>contents := Some (Json_array (map (rename (trim old) (trim new))
                                                (readVocabulary d)))\<rparr>)"
    by (rule exE)
  have s: "status (fst (topics_PUT d (Some old) (Some new))) = 200"
    by (simp add: p)
  have r: "store_after_rename d old new = map (rename (trim old) (trim new)) (readVocabulary d)"
    unfolding store_after_rename_def p
    by (simp add: readVocabulary_def fs_readFileSync_def JSON_parse_def)
  show ?thesis
    unfolding r using s rename_frame [of _ "readVocabulary d" "trim old" "trim new"]
    by simp
qed

theorem topics_PUT_renames_witness:
  "status (fst (topics_PUT (disk_of [neko, inu, tori, ringo]) (Some (utf16 '' animals''))
                  (Some (utf16 ''fauna'')))) = 200
   \<and> store_after_rename (disk_of [neko, inu, tori, ringo]) (utf16 '' animals'') (utf16 ''fauna'')
       = [neko\<lparr>topic := Some (utf16 ''fauna'')\<rparr>, inu\<lparr>topic := Some (utf16 ''fauna'')\<rparr>,
          tori\<lparr>topic := Some (utf16 ''fauna'')\<rparr>, ringo]"
proof -
  have t: "trim (utf16 '' animals'') = utf16 ''animals''" "trim (utf16 ''fauna'') = utf16 ''fauna''"
    by (simp_all add: trim_def isWhiteSpace_def utf16_def)
  have a: "utf16 '' animals'' \<noteq> []" "utf16 ''fauna'' \<noteq> []"
    by (simp_all add: utf16_def)
  have b: "\<exists>v \<in> set (readVocabulary (disk_of [neko, inu, tori, ringo])).
             topic v = Some (trim (utf16 '' animals''))"
    unfolding t by (simp add: readVocabulary_disk_of neko_def)
  have c: "\<forall>v \<in> set (readVocabulary (disk_of [neko, inu, tori, ringo])).
             topic v \<noteq> Some (trim (utf16 ''fauna''))"
    unfolding t by (simp add: readVocabulary_disk_of neko_def inu_def tori_def ringo_def utf16_def)
  have d: "writable (disk_of [neko, inu, tori, ringo])"
    by (simp add: disk_of_def)
  have f: "map (rename (utf16 ''animals'') (utf16 ''fauna'')) [neko, inu, tori, ringo]
         = [neko\<lparr>topic := Some (utf16 ''fauna'')\<rparr>, inu\<lparr>topic := Some (utf16 ''fauna'')\<rparr>,
            tori\<lparr>topic := Some (utf16 ''fauna'')\<rparr>, ringo]"
    by (simp add: rename_def neko_def inu_def tori_def ringo_def utf16_def)
  from topics_PUT_renames [OF a b c d]
  have "status (fst (topics_PUT (disk_of [neko, inu, tori, ringo]) (Some (utf16 '' animals''))
                  (Some (utf16 ''fauna'')))) = 200"
    and "store_after_rename (disk_of [neko, inu, tori, ringo]) (utf16 '' animals'') (utf16 ''fauna'')
       = map (rename (trim (utf16 '' animals'')) (trim (utf16 ''fauna'')))
           (readVocabulary (disk_of [neko, inu, tori, ringo]))"
    by (rule conjunct1, rule conjunct2 [THEN conjunct1])
  then show ?thesis
    unfolding t readVocabulary_disk_of f by (rule conjI)
qed

end
